theory Spec2Isabelle
  imports Complex_Main "HOL-Library.Sublist"
begin

section \<open>Python text: splitting, joining and number formatting\<close>

text \<open>
  The controller of \<^verbatim>\<open>staticcontroller.py\<close> works on Python strings. A string is a
  \<^typ>\<open>string\<close>; the few string methods the controller calls are written out below
  with the results Python gives.
\<close>

definition startswith :: "string \<Rightarrow> string \<Rightarrow> bool" where
  "startswith s pre = prefix pre s"

definition endswith :: "string \<Rightarrow> string \<Rightarrow> bool" where
  "endswith s suf = suffix suf s"

text \<open>\<^verbatim>\<open>s.split(sep)\<close> for a one-character separator: never empty, \<^verbatim>\<open>''.split('/') == ['']\<close>.\<close>

primrec str_split :: "char \<Rightarrow> string \<Rightarrow> string list" where
  "str_split sep [] = [[]]"
| "str_split sep (c # cs) =
     (if c = sep then [] # str_split sep cs
      else (case str_split sep cs of [] \<Rightarrow> [[c]] | w # ws \<Rightarrow> (c # w) # ws))"

text \<open>\<^verbatim>\<open>sep.join(parts)\<close>.\<close>

fun str_join :: "string \<Rightarrow> string list \<Rightarrow> string" where
  "str_join sep [] = []"
| "str_join sep [w] = w"
| "str_join sep (w # ws) = w @ sep @ str_join sep ws"

text \<open>\<^verbatim>\<open>str(n)\<close> and \<^verbatim>\<open>'%d' % n\<close> for an integer, \<^verbatim>\<open>'%02d' % n\<close> for the date fields.\<close>

definition digit :: "nat \<Rightarrow> char" where
  "digit d = ''0123456789'' ! d"

fun str_nat :: "nat \<Rightarrow> string" where
  "str_nat n =
     (if n < 10 then [digit n]
      else str_nat (n div 10) @ [digit (n mod 10)])"

declare str_nat.simps [simp del]

definition str_int :: "int \<Rightarrow> string" where
  "str_int i = (if i < 0 then CHR ''-'' # str_nat (nat (- i)) else str_nat (nat i))"

definition fmt_02d :: "int \<Rightarrow> string" where
  "fmt_02d i = (let s = str_int i in if length s < 2 then CHR ''0'' # s else s)"

text \<open>
  Indexing a tuple, \<^verbatim>\<open>xs[i]\<close>: a negative index counts from the end, an index out of
  range raises \<^verbatim>\<open>IndexError\<close>.
\<close>

datatype py_exn = TypeError | OverflowError | ValueError | IndexError | OSError

definition tuple_index :: "'a list \<Rightarrow> int \<Rightarrow> py_exn + 'a" where
  "tuple_index xs i =
     (if 0 \<le> i \<and> i < int (length xs) then Inr (xs ! nat i)
      else if i < 0 \<and> - int (length xs) \<le> i then Inr (xs ! nat (int (length xs) + i))
      else Inl IndexError)"

section \<open>\<^verbatim>\<open>os.path\<close> on a POSIX host\<close>

text \<open>
  \<^verbatim>\<open>normcase\<close>, \<^verbatim>\<open>normpath\<close>, \<^verbatim>\<open>join\<close> and \<^verbatim>\<open>dirname\<close> are the functions of
  \<^verbatim>\<open>posixpath\<close>, transcribed from the standard library: the separator is \<^verbatim>\<open>/\<close> and
  \<^verbatim>\<open>normcase\<close> returns its argument. \<open>join_step\<close> is one round of the loop of
  \<^verbatim>\<open>join\<close>, \<open>norm_step\<close> one round of the loop of \<^verbatim>\<open>normpath\<close> over the parts
  of the path, and \<open>normpath_comps\<close> the list \<^verbatim>\<open>new_comps\<close> that loop leaves.
\<close>

definition normcase :: "string \<Rightarrow> string" where
  "normcase s = s"

definition join_step :: "string \<Rightarrow> string \<Rightarrow> string" where
  "join_step path b =
     (if startswith b ''/'' then b
      else if path = [] \<or> endswith path ''/'' then path @ b
      else path @ ''/'' @ b)"

definition join :: "string \<Rightarrow> string list \<Rightarrow> string" where
  "join a p = foldl join_step a p"

definition initial_slashes :: "string \<Rightarrow> nat" where
  "initial_slashes path =
     (if startswith path ''/''
      then (if startswith path ''//'' \<and> \<not> startswith path ''///'' then 2 else 1)
      else 0)"

definition norm_step :: "nat \<Rightarrow> string list \<Rightarrow> string \<Rightarrow> string list" where
  "norm_step slashes new_comps part =
     (if part \<in> set ['''', ''.''] then new_comps
      else if part \<noteq> ''..'' \<or> (slashes = 0 \<and> new_comps = [])
                \<or> (new_comps \<noteq> [] \<and> last new_comps = ''..'')
           then new_comps @ [part]
      else if new_comps \<noteq> [] then butlast new_comps
      else new_comps)"

definition normpath_comps :: "string \<Rightarrow> string list" where
  "normpath_comps path =
     foldl (norm_step (initial_slashes path)) [] (str_split CHR ''/'' path)"

definition normpath :: "string \<Rightarrow> string" where
  "normpath path =
     (if path = [] then ''.''
      else let joined = replicate (initial_slashes path) CHR ''/''
                          @ str_join ''/'' (normpath_comps path)
           in if joined = [] then ''.'' else joined)"

definition dirname :: "string \<Rightarrow> string" where
  "dirname p =
     (let head = rev (dropWhile (\<lambda>c. c \<noteq> CHR ''/'') (rev p))
      in if head \<noteq> [] \<and> head \<noteq> replicate (length head) CHR ''/''
         then rev (dropWhile (\<lambda>c. c = CHR ''/'') (rev head))
         else head)"

section \<open>The controller\<close>

record controller =
  cache_max_age :: int
  static_path :: string

text \<open>\<^verbatim>\<open>StaticController._adapt_path\<close>.\<close>

definition adapt_path :: "string \<Rightarrow> string" where
  "adapt_path path = normcase (normpath path)"

text \<open>
  \<^verbatim>\<open>StaticController.__init__\<close>. \<open>package_file\<close> is \<^verbatim>\<open>config.package.__file__\<close>, which
  the constructor reads from the framework's configuration.
\<close>

definition init :: "string \<Rightarrow> string \<Rightarrow> int \<Rightarrow> controller" where
  "init package_file static max_age =
     (let application_path = adapt_path (dirname package_file)
      in \<lparr>cache_max_age = max_age,
          static_path = adapt_path (join application_path [static])\<rparr>)"

section \<open>Calendar time\<close>

text \<open>
  The result of \<^verbatim>\<open>time.gmtime\<close> and of \<^verbatim>\<open>datetime.utctimetuple\<close>, with the fields
  that \<^verbatim>\<open>make_date\<close> reads. \<open>tm_wday\<close> counts from Monday = 0 and \<open>tm_mon\<close> from
  January = 1.
\<close>

record struct_time =
  tm_year :: int
  tm_mon :: int
  tm_mday :: int
  tm_hour :: int
  tm_min :: int
  tm_sec :: int
  tm_wday :: int

text \<open>
  The argument of \<^verbatim>\<open>make_date\<close>: a \<^verbatim>\<open>datetime\<close>, known by its
  \<^verbatim>\<open>utctimetuple()\<close>, or a number of seconds.
\<close>

datatype date_arg = Datetime struct_time | Timestamp real

text \<open>
  \<^verbatim>\<open>StaticController.make_date\<close>. \<open>format_date\<close> is its last statement, the
  formatting of the time tuple. \<open>gm\<close> is \<^verbatim>\<open>time.gmtime\<close>, which raises for a
  timestamp outside the range of the platform; \<^verbatim>\<open>make_date\<close> does not catch that.
\<close>

definition format_date :: "struct_time \<Rightarrow> py_exn + string" where
  "format_date t =
     (case tuple_index [''Mon'', ''Tue'', ''Wed'', ''Thu'', ''Fri'', ''Sat'', ''Sun'']
             (tm_wday t) of
        Inl e \<Rightarrow> Inl e
      | Inr wday \<Rightarrow>
          (case tuple_index [''Jan'', ''Feb'', ''Mar'', ''Apr'', ''May'', ''Jun'', ''Jul'',
                             ''Aug'', ''Sep'', ''Oct'', ''Nov'', ''Dec''] (tm_mon t - 1) of
             Inl e \<Rightarrow> Inl e
           | Inr mon \<Rightarrow>
               Inr (wday @ '', '' @ fmt_02d (tm_mday t) @ '' '' @ mon @ '' ''
                    @ str_int (tm_year t) @ '' '' @ fmt_02d (tm_hour t) @ '':''
                    @ fmt_02d (tm_min t) @ '':'' @ fmt_02d (tm_sec t) @ '' GMT'')))"

definition make_date :: "(real \<Rightarrow> py_exn + struct_time) \<Rightarrow> date_arg \<Rightarrow> py_exn + string" where
  "make_date gm d =
     (case d of
        Datetime u \<Rightarrow> format_date u
      | Timestamp secs \<Rightarrow> (case gm secs of Inl e \<Rightarrow> Inl e | Inr t \<Rightarrow> format_date t))"

section \<open>The request and the host\<close>

text \<open>
  \<^verbatim>\<open>request.environ\<close>, the WSGI dictionary, with the keys the controller reads. The
  two keys it indexes are always there; the keys it reads with \<^verbatim>\<open>.get\<close> may be absent.
  \<open>wsgi_file_wrapper\<close> says whether the server offers \<^verbatim>\<open>wsgi.file_wrapper\<close>.
\<close>

record environ =
  REQUEST_METHOD :: string
  PATH_INFO :: string
  HTTP_IF_MODIFIED_SINCE :: "string option"
  HTTP_IF_NONE_MATCH :: "string option"
  wsgi_file_wrapper :: bool

text \<open>
  What \<^verbatim>\<open>stat\<close> and \<^verbatim>\<open>open\<close> give for one path: the modification time (a Python float,
  here the real number it stands for), the size in bytes, whether the path is a
  regular file, and what \<^verbatim>\<open>open(path, 'rb')\<close> does, the text of the error it raises or the
  bytes of the file.
\<close>

record inode =
  st_mtime :: real
  st_size :: nat
  is_regular :: bool
  opened :: "string + string"

text \<open>
  Everything else the controller takes from outside its own file. \<open>fs\<close> is the file
  system during the request, one snapshot, with \<open>None\<close> for a path that \<^verbatim>\<open>stat\<close>
  refuses. \<open>parsedate_tz\<close> and \<open>mktime_tz\<close> are the functions of \<^verbatim>\<open>email.utils\<close>:
  the first gives \<open>None\<close> for a text it cannot read as a date, the second is given here
  on a parsed date and returns the timestamp or raises. \<open>guess_type\<close> is the content
  type of \<^verbatim>\<open>mimetypes.guess_type(path, strict=False)\<close>, \<open>float_str\<close> is \<^verbatim>\<open>'%s' % x\<close> for a
  float, \<open>gmtime\<close> is \<^verbatim>\<open>time.gmtime\<close>, which returns the time tuple or raises,
  \<open>clock\<close> is \<^verbatim>\<open>time()\<close>, and \<open>BLOCK_SIZE\<close> is \<^verbatim>\<open>tg.support.statics._BLOCK_SIZE\<close>.
\<close>

record 'd host =
  fs :: "string \<Rightarrow> inode option"
  parsedate_tz :: "string \<Rightarrow> 'd option"
  mktime_tz :: "'d \<Rightarrow> py_exn + real"
  guess_type :: "string \<Rightarrow> string option"
  float_str :: "real \<Rightarrow> string"
  gmtime :: "real \<Rightarrow> py_exn + struct_time"
  clock :: real
  BLOCK_SIZE :: nat

text \<open>The calls the controller makes on the file system, in the order it makes them.\<close>

datatype fs_call = Getmtime string | Getsize string | Isfile string | Open string

text \<open>
  What a request ends with. \<^verbatim>\<open>redirect\<close> and \<^verbatim>\<open>parse_date\<close> raise; an exception the
  controller does not catch leaves it as it is. The other results are returned.
  \<open>FileIter\<close> is the success: the headers added to the response, whether the server's
  file wrapper streams the file (or \<^verbatim>\<open>_FileIter\<close>), the bytes of the file and the block
  size.
\<close>

datatype raised = HTTPFound string | HTTPBadRequest string | Uncaught py_exn

datatype response =
    HTTPNotFound "string option"
  | HTTPNotModified "(string \<times> string) list"
  | HTTPForbidden string
  | FileIter "(string \<times> string) list" bool string nat

section \<open>Validators\<close>

text \<open>
  \<^verbatim>\<open>StaticController.generate_etag\<close>, \<^verbatim>\<open>'"%s-%s"' % (last_modified, content_length)\<close>.
  \<open>fmt\<close> is \<^verbatim>\<open>%s\<close> on the first argument (the controller passes the float of
  \<^verbatim>\<open>getmtime\<close>); the second is a size in bytes.
\<close>

definition generate_etag :: "('a \<Rightarrow> string) \<Rightarrow> 'a \<Rightarrow> nat \<Rightarrow> string" where
  "generate_etag fmt last_modified content_length =
     [CHR 0x22] @ fmt last_modified @ ''-'' @ str_nat content_length @ [CHR 0x22]"


text \<open>
  \<^verbatim>\<open>StaticController.parse_date\<close>. \<^verbatim>\<open>mktime_tz(None)\<close> raises \<^verbatim>\<open>TypeError\<close>, which is how
  a text that \<^verbatim>\<open>parsedate_tz\<close> cannot read becomes a bad request.
\<close>

definition parse_date :: "'d host \<Rightarrow> string \<Rightarrow> raised + real" where
  "parse_date H v =
     (case (case parsedate_tz H v of None \<Rightarrow> Inl TypeError | Some d \<Rightarrow> mktime_tz H d) of
        Inr t \<Rightarrow> Inr t
      | Inl e \<Rightarrow>
          if e \<in> set [TypeError, OverflowError]
          then Inl (HTTPBadRequest (''Received an ill-formed timestamp.'' @ [CHR 0x0D, CHR 0x0A]))
          else Inl (Uncaught e))"

text \<open>
  \<^verbatim>\<open>StaticController.has_been_modified\<close>. A Python \<^verbatim>\<open>if x:\<close> on a string is false for
  \<^verbatim>\<open>None\<close> and for the empty string, and on a number it is false for zero.
\<close>

definition has_been_modified :: "'d host \<Rightarrow> environ \<Rightarrow> string \<Rightarrow> real \<Rightarrow> raised + bool" where
  "has_been_modified H env etag last_modified =
     (if REQUEST_METHOD env \<notin> set [''GET'', ''HEAD''] then Inr False
      else
        case (case HTTP_IF_MODIFIED_SINCE env of
                None \<Rightarrow> Inr False
              | Some modified_since \<Rightarrow>
                  if modified_since = [] then Inr False
                  else (case parse_date H modified_since of
                          Inl e \<Rightarrow> Inl e
                        | Inr since \<Rightarrow> Inr (last_modified \<noteq> 0 \<and> last_modified \<le> since))) of
          Inl e \<Rightarrow> Inl e
        | Inr unmodified \<Rightarrow>
            Inr (\<not> (case HTTP_IF_NONE_MATCH env of
                       None \<Rightarrow> unmodified
                     | Some if_none_match \<Rightarrow>
                         if if_none_match \<noteq> [] \<and> etag = if_none_match then True
                         else unmodified)))"

section \<open>Serving a file\<close>

text \<open>
  \<^verbatim>\<open>tg.support.statics.INVALID_PATH_PARTS\<close> is \<^verbatim>\<open>set(['..', '.']).intersection\<close>; the
  controller tests its result, which is true when the intersection is not empty.
\<close>

definition INVALID_PATH_PARTS :: "string list \<Rightarrow> bool" where
  "INVALID_PATH_PARTS args = (set [''..'', ''.''] \<inter> set args \<noteq> {})"

text \<open>
  The path \<^verbatim>\<open>_default\<close> serves: the segments joined onto the static root and
  normalised, then the text after the last dot of \<^verbatim>\<open>PATH_INFO\<close> put back as the
  extension, when \<^verbatim>\<open>PATH_INFO\<close> has a dot.
\<close>

definition resolve :: "controller \<Rightarrow> environ \<Rightarrow> string list \<Rightarrow> string" where
  "resolve self env args =
     (let filepath = adapt_path (join (static_path self) args);
          extension = str_split CHR ''.'' (PATH_INFO env)
      in if length extension > 1 then filepath @ ''.'' @ last extension else filepath)"

text \<open>
  \<^verbatim>\<open>StaticController._default\<close>, with the calls it made on the file system. The
  headers of a success are the list the controller passes to
  \<^verbatim>\<open>response.headers.extend\<close>.
\<close>

definition StaticController_default ::
  "'d host \<Rightarrow> controller \<Rightarrow> environ \<Rightarrow> string list \<Rightarrow> (raised + response) \<times> fs_call list" where
  "StaticController_default H self env args =
     (if args = [] then (Inl (HTTPFound (PATH_INFO env @ ''index.html'')), [])
      else if INVALID_PATH_PARTS args
      then (Inr (HTTPNotFound (Some (''Out of bounds: '' @ PATH_INFO env))), [])
      else
        let filepath = resolve self env args
        in case fs H filepath of
             None \<Rightarrow> (Inr (HTTPNotFound None), [Getmtime filepath])
           | Some f \<Rightarrow>
               let last_modified = st_mtime f;
                   content_length = st_size f;
                   stat = [Getmtime filepath, Getsize filepath, Isfile filepath]
               in if is_regular f then
                    (let etag = generate_etag (float_str H) last_modified content_length;
                        headers = [(''Etag'', etag),
                                   (''Cache-Control'',
                                    ''max-age='' @ str_int (cache_max_age self) @ '', public'')]
                    in case has_been_modified H env etag last_modified of
                         Inl e \<Rightarrow> (Inl e, stat)
                       | Inr modified \<Rightarrow>
                           if \<not> modified then (Inr (HTTPNotModified headers), stat)
                           else
                             (case opened f of
                                Inl e \<Rightarrow>
                                  (Inr (HTTPForbidden
                                          (''You are not permitted to view this file (''
                                           @ e @ '')'')),
                                   stat @ [Open filepath])
                              | Inr content \<Rightarrow>
                                  (let content_type =
                                        (case guess_type H filepath of
                                           None \<Rightarrow> ''application/octet-stream''
                                         | Some t \<Rightarrow> t)
                                   in case make_date (gmtime H) (Timestamp (clock H
                                                        + of_int (cache_max_age self))) of
                                        Inl e \<Rightarrow> (Inl (Uncaught e), stat @ [Open filepath])
                                      | Inr expires \<Rightarrow>
                                         (case make_date (gmtime H) (Timestamp last_modified) of
                                            Inl e \<Rightarrow> (Inl (Uncaught e), stat @ [Open filepath])
                                          | Inr modified_date \<Rightarrow>
                                              (Inr (FileIter
                                                      (headers @
                                                       [(''Expires'', expires),
                                                        (''Content-Type'', content_type),
                                                        (''Content-Length'', str_nat content_length),
                                                        (''Last-Modified'', modified_date),
                                                        (''Etag'', etag),
                                                        (''Cache-Control'',
                                                         ''max-age='' @ str_int (cache_max_age self)
                                                         @ '', public'')])
                                                      (wsgi_file_wrapper env) content (BLOCK_SIZE H)),
                                               stat @ [Open filepath])))))
                  else (Inr (HTTPNotFound None), stat))"

section \<open>A host for the worked examples\<close>

text \<open>
  One concrete host, on which the theorems below are run. Its file system holds a style
  sheet, a file whose modification time is the epoch, a file whose modification time is
  beyond the years \<^verbatim>\<open>gmtime\<close> converts, and \<^verbatim>\<open>/etc/passwd\<close> outside the static root. \<open>sample_gmtime\<close> is \<^verbatim>\<open>time.gmtime\<close> of CPython on Linux with a 64-bit
  \<^verbatim>\<open>time_t\<close>: the calendar date, computed from the days since the epoch in eras of 400
  years that start on the first of March, for a timestamp whose year fits the C
  \<^verbatim>\<open>int\<close> of \<^verbatim>\<open>struct tm\<close>, and an exception outside.
  \<open>timegm\<close> is \<^verbatim>\<open>calendar.timegm\<close>, which raises \<^verbatim>\<open>ValueError\<close> for a year outside 1
  to 9999 or a month outside 1 to 12, so \<open>sample_mktime_tz\<close> is what
  \<^verbatim>\<open>mktime_tz\<close> computes for a date with a time zone; \<open>sample_parsedate_tz\<close> knows the
  dates the examples send and \<open>sample_float_str\<close> prints a float that has one decimal
  digit, both as Python does.
\<close>

definition day_of_era :: "int \<Rightarrow> int" where
  "day_of_era days = (days + 719468) mod 146097"

definition year_of_era :: "int \<Rightarrow> int" where
  "year_of_era doe = (doe - doe div 1460 + doe div 36524 - doe div 146096) div 365"

definition day_of_year :: "int \<Rightarrow> int" where
  "day_of_year doe =
     doe - (365 * year_of_era doe + year_of_era doe div 4 - year_of_era doe div 100)"

definition month_from_march :: "int \<Rightarrow> int" where
  "month_from_march doy = (5 * doy + 2) div 153"

definition civil_month :: "int \<Rightarrow> int" where
  "civil_month days = (month_from_march (day_of_year (day_of_era days)) + 2) mod 12 + 1"

definition civil_day :: "int \<Rightarrow> int" where
  "civil_day days =
     day_of_year (day_of_era days)
       - (153 * month_from_march (day_of_year (day_of_era days)) + 2) div 5 + 1"

definition civil_year :: "int \<Rightarrow> int" where
  "civil_year days =
     year_of_era (day_of_era days) + (days + 719468) div 146097 * 400
       + (if civil_month days \<le> 2 then 1 else 0)"

definition calendar :: "int \<Rightarrow> struct_time" where
  "calendar t =
     \<lparr>tm_year = civil_year (t div 86400),
      tm_mon = civil_month (t div 86400),
      tm_mday = civil_day (t div 86400),
      tm_hour = t mod 86400 div 3600,
      tm_min = t mod 3600 div 60,
      tm_sec = t mod 60,
      tm_wday = (t div 86400 + 3) mod 7\<rparr>"

definition sample_gmtime :: "real \<Rightarrow> py_exn + struct_time" where
  "sample_gmtime secs =
     (if \<lfloor>secs\<rfloor> < - (2 ^ 63) \<or> 2 ^ 63 \<le> \<lfloor>secs\<rfloor> then Inl OverflowError
      else if \<lfloor>secs\<rfloor> < - 67768040609740800 \<or> 67768036191676799 < \<lfloor>secs\<rfloor>
      then Inl OSError
      else Inr (calendar \<lfloor>secs\<rfloor>))"

definition days_before_month :: "int \<Rightarrow> int" where
  "days_before_month m = (153 * (m + (if m > 2 then - 3 else 9)) + 2) div 5"

definition days_from_civil :: "int \<Rightarrow> int \<Rightarrow> int \<Rightarrow> int" where
  "days_from_civil y m d =
     (y - (if m \<le> 2 then 1 else 0)) div 400 * 146097
       + (y - (if m \<le> 2 then 1 else 0)) mod 400 * 365
       + (y - (if m \<le> 2 then 1 else 0)) mod 400 div 4
       - (y - (if m \<le> 2 then 1 else 0)) mod 400 div 100
       + days_before_month m + d - 1 - 719468"

definition timegm :: "int list \<Rightarrow> int" where
  "timegm d = ((days_from_civil (d ! 0) (d ! 1) (d ! 2) * 24 + d ! 3) * 60 + d ! 4) * 60 + d ! 5"

definition sample_parsedate_tz :: "string \<Rightarrow> int list option" where
  "sample_parsedate_tz s =
     (if s = ''Tue, 13 May 2014 16:53:20 GMT'' then Some [2014, 5, 13, 16, 53, 20, 0, 1, - 1, 0]
      else if s = ''Tue, 13 May 2014 16:53:21 GMT'' then Some [2014, 5, 13, 16, 53, 21, 0, 1, - 1, 0]
      else if s = ''Thu, 01 Jan 1970 00:00:10 GMT'' then Some [1970, 1, 1, 0, 0, 10, 0, 1, - 1, 0]
      else if s = ''Tue, 13 May 10000 16:53:20 GMT''
      then Some [10000, 5, 13, 16, 53, 20, 0, 1, - 1, 0]
      else None)"

definition sample_mktime_tz :: "int list \<Rightarrow> py_exn + real" where
  "sample_mktime_tz d =
     (if d ! 0 < 1 \<or> 9999 < d ! 0 \<or> d ! 1 < 1 \<or> 12 < d ! 1 then Inl ValueError
      else Inr (of_int (timegm d - d ! 9)))"

definition sample_float_str :: "real \<Rightarrow> string" where
  "sample_float_str x = str_int \<lfloor>x\<rfloor> @ ''.'' @ str_int \<lfloor>10 * (x - of_int \<lfloor>x\<rfloor>)\<rfloor>"

definition sample_guess_type :: "string \<Rightarrow> string option" where
  "sample_guess_type path =
     (if endswith path ''.css'' then Some ''text/css''
      else if endswith path ''.txt'' then Some ''text/plain''
      else None)"

definition style_sheet :: inode where
  "style_sheet = \<lparr>st_mtime = 1400000000 + 1 / 2, st_size = 42, is_regular = True,
                   opened = Inr ''body { margin: 0 }''\<rparr>"

definition epoch_file :: inode where
  "epoch_file = \<lparr>st_mtime = 0, st_size = 7, is_regular = True, opened = Inr ''epoch''\<rparr>"

definition passwd_file :: inode where
  "passwd_file = \<lparr>st_mtime = 1400000000, st_size = 5, is_regular = True,
                   opened = Inr ''root:''\<rparr>"

definition far_future_file :: inode where
  "far_future_file = \<lparr>st_mtime = 10 ^ 18, st_size = 3, is_regular = True,
                       opened = Inr ''new''\<rparr>"

definition sample_fs :: "string \<Rightarrow> inode option" where
  "sample_fs path =
     (if path = ''/srv/app/public/css/site.css'' then Some style_sheet
      else if path = ''/srv/app/public/old.txt'' then Some epoch_file
      else if path = ''/etc/passwd'' then Some passwd_file
      else if path = ''/srv/app/public/new.txt'' then Some far_future_file
      else None)"

definition sample_host :: "int list host" where
  "sample_host =
     \<lparr>fs = sample_fs, parsedate_tz = sample_parsedate_tz, mktime_tz = sample_mktime_tz,
      guess_type = sample_guess_type, float_str = sample_float_str, gmtime = sample_gmtime,
      clock = 1400000100 + 1 / 4, BLOCK_SIZE = 262144\<rparr>"

definition sample_controller :: controller where
  "sample_controller = init ''/srv/app/__init__.py'' ''public'' 3600"

definition sample_env :: environ where
  "sample_env = \<lparr>REQUEST_METHOD = ''GET'', PATH_INFO = ''/static/css/site.css'',
      HTTP_IF_MODIFIED_SINCE = None, HTTP_IF_NONE_MATCH = None, wsgi_file_wrapper = False\<rparr>"

section \<open>Properties of the helpers\<close>

lemma invalid_nonempty: "INVALID_PATH_PARTS args \<Longrightarrow> args \<noteq> []"
  by (auto simp: INVALID_PATH_PARTS_def)

lemma default_served:
  assumes "args \<noteq> []" "\<not> INVALID_PATH_PARTS args"
    and "fs H (resolve self env args) = Some f" "is_regular f"
  shows "StaticController_default H self env args =
     (let filepath = resolve self env args;
          stat = [Getmtime filepath, Getsize filepath, Isfile filepath];
          etag = generate_etag (float_str H) (st_mtime f) (st_size f);
          headers = [(''Etag'', etag),
                     (''Cache-Control'', ''max-age='' @ str_int (cache_max_age self) @ '', public'')]
      in case has_been_modified H env etag (st_mtime f) of
           Inl e \<Rightarrow> (Inl e, stat)
         | Inr modified \<Rightarrow>
             if \<not> modified then (Inr (HTTPNotModified headers), stat)
             else
               (case opened f of
                  Inl e \<Rightarrow>
                    (Inr (HTTPForbidden (''You are not permitted to view this file ('' @ e @ '')'')),
                     stat @ [Open filepath])
                | Inr content \<Rightarrow>
                    (let content_type =
                          (case guess_type H filepath of
                             None \<Rightarrow> ''application/octet-stream''
                           | Some t \<Rightarrow> t)
                     in case make_date (gmtime H) (Timestamp (clock H + of_int (cache_max_age self))) of
                          Inl e \<Rightarrow> (Inl (Uncaught e), stat @ [Open filepath])
                        | Inr expires \<Rightarrow>
                            (case make_date (gmtime H) (Timestamp (st_mtime f)) of
                               Inl e \<Rightarrow> (Inl (Uncaught e), stat @ [Open filepath])
                             | Inr modified_date \<Rightarrow>
                                 (Inr (FileIter
                                         (headers @
                                          [(''Expires'', expires),
                                           (''Content-Type'', content_type),
                                           (''Content-Length'', str_nat (st_size f)),
                                           (''Last-Modified'', modified_date),
                                           (''Etag'', etag),
                                           (''Cache-Control'',
                                            ''max-age='' @ str_int (cache_max_age self)
                                            @ '', public'')])
                                         (wsgi_file_wrapper env) content (BLOCK_SIZE H)),
                                  stat @ [Open filepath])))))"
  unfolding StaticController_default_def Let_def
  by (simp only: assms if_False if_True option.case not_False_eq_True simp_thms)

lemma hbm_unsafe:
  "REQUEST_METHOD env \<notin> set [''GET'', ''HEAD''] \<Longrightarrow> has_been_modified H env etag lm = Inr False"
  by (simp add: has_been_modified_def)

lemma etag_nonempty: "generate_etag fmt lm cl \<noteq> []"
  by (simp add: generate_etag_def)

lemma parse_date_unparsable:
  "parsedate_tz H v = None \<Longrightarrow>
   parse_date H v = Inl (HTTPBadRequest (''Received an ill-formed timestamp.'' @ [CHR 0x0D, CHR 0x0A]))"
  by (simp add: parse_date_def)

lemma parse_date_rejected:
  assumes "parsedate_tz H v = None \<or>
           (\<exists>d. parsedate_tz H v = Some d \<and>
                (mktime_tz H d = Inl TypeError \<or> mktime_tz H d = Inl OverflowError))"
  shows "parse_date H v =
           Inl (HTTPBadRequest (''Received an ill-formed timestamp.'' @ [CHR 0x0D, CHR 0x0A]))"
  using assms by (auto simp: parse_date_def)

lemma parse_date_uncaught:
  "parsedate_tz H v = Some d \<Longrightarrow> mktime_tz H d = Inl e \<Longrightarrow>
   e \<notin> set [TypeError, OverflowError] \<Longrightarrow> parse_date H v = Inl (Uncaught e)"
  by (simp add: parse_date_def)

lemma empty_since_as_absent:
  "has_been_modified H (env\<lparr>HTTP_IF_MODIFIED_SINCE := Some []\<rparr>) etag lm =
   has_been_modified H (env\<lparr>HTTP_IF_MODIFIED_SINCE := None\<rparr>) etag lm"
  by (simp add: has_been_modified_def)

lemma resolve_path_info:
  "PATH_INFO env' = PATH_INFO env \<Longrightarrow> resolve self env' args = resolve self env args"
  by (simp add: resolve_def)

lemma default_cong:
  assumes "PATH_INFO env' = PATH_INFO env" "wsgi_file_wrapper env' = wsgi_file_wrapper env"
    and "\<And>etag lm. has_been_modified H env' etag lm = has_been_modified H env etag lm"
  shows "StaticController_default H self env' args = StaticController_default H self env args"
  unfolding StaticController_default_def resolve_path_info [OF assms(1)] assms(1,2,3)
  by (rule refl)

lemma hbm_bad_date:
  assumes "REQUEST_METHOD env \<in> set [''GET'', ''HEAD'']"
    and "HTTP_IF_MODIFIED_SINCE env = Some v" "v \<noteq> []" "parse_date H v = Inl e"
  shows "has_been_modified H env etag lm = Inl e"
  using assms by (simp add: has_been_modified_def)

lemma hbm_since:
  assumes "REQUEST_METHOD env \<in> set [''GET'', ''HEAD'']"
    and "HTTP_IF_MODIFIED_SINCE env = Some v" "v \<noteq> []" "parse_date H v = Inr t"
  shows "has_been_modified H env etag lm =
           Inr (\<not> ((lm \<noteq> 0 \<and> lm \<le> t) \<or> (HTTP_IF_NONE_MATCH env = Some etag \<and> etag \<noteq> [])))"
  using assms by (auto simp: has_been_modified_def split: option.splits)

lemma hbm_match:
  assumes "REQUEST_METHOD env \<in> set [''GET'', ''HEAD'']"
    and "HTTP_IF_NONE_MATCH env = Some etag" "etag \<noteq> []"
    and "HTTP_IF_MODIFIED_SINCE env = None \<or>
         (\<exists>v t. HTTP_IF_MODIFIED_SINCE env = Some v \<and> parse_date H v = Inr t)"
  shows "has_been_modified H env etag lm = Inr False"
  using assms by (auto simp: has_been_modified_def split: option.splits)

lemma default_success:
  assumes "args \<noteq> []" "\<not> INVALID_PATH_PARTS args"
    and "fs H (resolve self env args) = Some f" "is_regular f"
    and "has_been_modified H env (generate_etag (float_str H) (st_mtime f) (st_size f))
           (st_mtime f) = Inr True"
    and "opened f = Inr content"
    and "make_date (gmtime H) (Timestamp (clock H + of_int (cache_max_age self))) = Inr expires"
    and "make_date (gmtime H) (Timestamp (st_mtime f)) = Inr modified_date"
  shows "StaticController_default H self env args =
     (Inr (FileIter
             [(''Etag'', generate_etag (float_str H) (st_mtime f) (st_size f)),
              (''Cache-Control'', ''max-age='' @ str_int (cache_max_age self) @ '', public''),
              (''Expires'', expires),
              (''Content-Type'',
               case guess_type H (resolve self env args) of
                 None \<Rightarrow> ''application/octet-stream'' | Some t \<Rightarrow> t),
              (''Content-Length'', str_nat (st_size f)),
              (''Last-Modified'', modified_date),
              (''Etag'', generate_etag (float_str H) (st_mtime f) (st_size f)),
              (''Cache-Control'', ''max-age='' @ str_int (cache_max_age self) @ '', public'')]
             (wsgi_file_wrapper env) content (BLOCK_SIZE H)),
      [Getmtime (resolve self env args), Getsize (resolve self env args),
       Isfile (resolve self env args), Open (resolve self env args)])"
  unfolding default_served[OF assms(1-4)] Let_def assms(5-8) by simp

lemma default_not_modified:
  assumes "args \<noteq> []" "\<not> INVALID_PATH_PARTS args"
    and "fs H (resolve self env args) = Some f" "is_regular f"
    and "has_been_modified H env (generate_etag (float_str H) (st_mtime f) (st_size f))
           (st_mtime f) = Inr False"
  shows "StaticController_default H self env args =
     (Inr (HTTPNotModified
             [(''Etag'', generate_etag (float_str H) (st_mtime f) (st_size f)),
              (''Cache-Control'', ''max-age='' @ str_int (cache_max_age self) @ '', public'')]),
      [Getmtime (resolve self env args), Getsize (resolve self env args),
       Isfile (resolve self env args)])"
  unfolding default_served[OF assms(1-4)] Let_def assms(5) by simp
























section \<open>The worked examples, evaluated\<close>

lemmas path_defs = adapt_path_def normcase_def dirname_def join_def join_step_def normpath_def
  normpath_comps_def
  initial_slashes_def startswith_def endswith_def norm_step_def resolve_def Let_def suffix_to_prefix

lemmas cal_defs = sample_gmtime_def calendar_def civil_year_def civil_month_def civil_day_def
  month_from_march_def
  day_of_year_def year_of_era_def day_of_era_def

lemma sample_controller_eval:
  "sample_controller = \<lparr>cache_max_age = 3600, static_path = ''/srv/app/public''\<rparr>"
  by (simp add: sample_controller_def init_def path_defs)

lemma resolve_style_sheet:
  "PATH_INFO env = ''/static/css/site.css'' \<Longrightarrow>
   resolve sample_controller env [''css'', ''site''] = ''/srv/app/public/css/site.css''"
  by (simp add: sample_controller_eval path_defs)

lemma resolve_epoch_file:
  "PATH_INFO env = ''/static/old.txt'' \<Longrightarrow>
   resolve sample_controller env [''old''] = ''/srv/app/public/old.txt''"
  by (simp add: sample_controller_eval path_defs)


lemma resolve_far_future:
  "PATH_INFO env = ''/static/new.txt'' \<Longrightarrow>
   resolve sample_controller env [''new''] = ''/srv/app/public/new.txt''"
  by (simp add: sample_controller_eval path_defs)

lemma sample_fs_eval:
  "fs sample_host ''/srv/app/public/css/site.css'' = Some style_sheet"
  "fs sample_host ''/srv/app/public/old.txt'' = Some epoch_file"
  "fs sample_host ''/etc/passwd'' = Some passwd_file"
  by (simp_all add: sample_host_def sample_fs_def)

lemma sample_guess_type_eval:
  "guess_type sample_host ''/srv/app/public/css/site.css'' = Some ''text/css''"
  "guess_type sample_host ''/srv/app/public/old.txt'' = Some ''text/plain''"
  "guess_type sample_host ''/etc/passwd'' = None"
  by (simp_all add: sample_host_def sample_guess_type_def endswith_def suffix_to_prefix)

lemma sample_segments_valid:
  "\<not> INVALID_PATH_PARTS [''css'', ''site'']"
  "\<not> INVALID_PATH_PARTS [''old'']"
  "\<not> INVALID_PATH_PARTS [''/etc/passwd'']"
  by (simp_all add: INVALID_PATH_PARTS_def)

lemma sample_regular:
  "is_regular style_sheet" "is_regular epoch_file" "is_regular passwd_file"
  by (simp_all add: style_sheet_def epoch_file_def passwd_file_def)

lemma sample_opened:
  "opened style_sheet = Inr ''body { margin: 0 }''"
  "opened epoch_file = Inr ''epoch''"
  "opened passwd_file = Inr ''root:''"
  by (simp_all add: style_sheet_def epoch_file_def passwd_file_def)

lemma sample_sizes:
  "str_nat (st_size style_sheet) = ''42''"
  "str_nat (st_size epoch_file) = ''7''"
  "str_nat (st_size passwd_file) = ''5''"
  by (simp_all add: style_sheet_def epoch_file_def passwd_file_def str_nat.simps digit_def)

lemma sample_block_size: "BLOCK_SIZE sample_host = 262144"
  by (simp add: sample_host_def)

lemma sample_etags:
  "generate_etag (float_str sample_host) (st_mtime style_sheet) (st_size style_sheet) =
     CHR 0x22 # ''1400000000.5-42'' @ [CHR 0x22]"
  "generate_etag (float_str sample_host) (st_mtime epoch_file) (st_size epoch_file) =
     CHR 0x22 # ''0.0-7'' @ [CHR 0x22]"
  "generate_etag (float_str sample_host) (st_mtime passwd_file) (st_size passwd_file) =
     CHR 0x22 # ''1400000000.0-5'' @ [CHR 0x22]"
  by (simp_all add: sample_host_def style_sheet_def epoch_file_def passwd_file_def
        generate_etag_def sample_float_str_def str_int_def str_nat.simps digit_def)

lemma sample_cache_control:
  "''max-age='' @ str_int (cache_max_age sample_controller) @ '', public'' =
     ''max-age=3600, public''"
  by (simp add: sample_controller_eval str_int_def str_nat.simps digit_def)

lemma sample_expires:
  "make_date (gmtime sample_host) (Timestamp (clock sample_host + of_int (cache_max_age sample_controller))) =
     Inr ''Tue, 13 May 2014 17:55:00 GMT''"
  by (simp add: sample_host_def sample_controller_eval make_date_def format_date_def cal_defs tuple_index_def
        fmt_02d_def str_int_def str_nat.simps digit_def Let_def)

lemma sample_dates:
  "make_date (gmtime sample_host) (Timestamp (st_mtime style_sheet)) = Inr ''Tue, 13 May 2014 16:53:20 GMT''"
  "make_date (gmtime sample_host) (Timestamp (st_mtime epoch_file)) = Inr ''Thu, 01 Jan 1970 00:00:00 GMT''"
  "make_date (gmtime sample_host) (Timestamp (st_mtime passwd_file)) = Inr ''Tue, 13 May 2014 16:53:20 GMT''"
  by (simp_all add: sample_host_def style_sheet_def epoch_file_def passwd_file_def make_date_def
        format_date_def cal_defs
        tuple_index_def fmt_02d_def str_int_def str_nat.simps digit_def Let_def)

lemma sample_parse_dates:
  "parse_date sample_host ''Tue, 13 May 2014 16:53:20 GMT'' = Inr 1400000000"
  "parse_date sample_host ''Tue, 13 May 2014 16:53:21 GMT'' = Inr 1400000001"
  "parse_date sample_host ''Thu, 01 Jan 1970 00:00:10 GMT'' = Inr 10"
  by (simp_all add: parse_date_def sample_host_def sample_parsedate_tz_def sample_mktime_tz_def
        timegm_def days_from_civil_def days_before_month_def)

lemma style_sheet_request:
  assumes "PATH_INFO env = ''/static/css/site.css''"
  shows "fs sample_host (resolve sample_controller env [''css'', ''site'']) = Some style_sheet"
  by (simp only: resolve_style_sheet[OF assms] sample_fs_eval)

lemma epoch_file_request:
  assumes "PATH_INFO env = ''/static/old.txt''"
  shows "fs sample_host (resolve sample_controller env [''old'']) = Some epoch_file"
  by (simp only: resolve_epoch_file[OF assms] sample_fs_eval)


lemma sample_unparsable:
  "parsedate_tz sample_host ''not-a-date'' = None" "parsedate_tz sample_host [] = None"
  by (simp_all add: sample_host_def sample_parsedate_tz_def)

section \<open>Path segments\<close>




text \<open>
  Claim C4. A segment sequence with a \<^verbatim>\<open>..\<close> component, in any position, is rejected with
  404 Not Found, and the list of calls on the file system is empty: the test on the
  segments comes before any \<^verbatim>\<open>stat\<close> or \<^verbatim>\<open>open\<close>.
\<close>

theorem dotdot_rejected_before_fs:
  assumes "''..'' \<in> set args"
  shows "StaticController_default H self env args =
     (Inr (HTTPNotFound (Some (''Out of bounds: '' @ PATH_INFO env))), [])"
proof -
  have inv: "INVALID_PATH_PARTS args" using assms by (auto simp: INVALID_PATH_PARTS_def)
  then have "args \<noteq> []" by (rule invalid_nonempty)
  with inv show ?thesis by (simp add: StaticController_default_def)
qed

theorem dotdot_rejected_before_fs_witness:
  "''..'' \<in> set [''..'', ''..'', ''etc'', ''passwd''] \<and>
   StaticController_default sample_host sample_controller
       (sample_env\<lparr>PATH_INFO := ''/static/../../etc/passwd''\<rparr>)
       [''..'', ''..'', ''etc'', ''passwd''] =
     (Inr (HTTPNotFound (Some ''Out of bounds: /static/../../etc/passwd'')), [])"
  using dotdot_rejected_before_fs [of "[''..'', ''..'', ''etc'', ''passwd'']" sample_host
      sample_controller "sample_env\<lparr>PATH_INFO := ''/static/../../etc/passwd''\<rparr>"]
  by (simp add: sample_env_def)

section \<open>The ETag\<close>




section \<open>The cache validator\<close>

text \<open>
  Claim C2, amended. For a request whose method is neither GET nor HEAD the validator
  returns \<open>False\<close>, that is "not modified", whatever the conditional headers, the
  ETag and the modification time are. (The claim as stated says it returns true.)
\<close>

theorem unsafe_method_reports_not_modified:
  "REQUEST_METHOD env \<notin> set [''GET'', ''HEAD''] \<Longrightarrow>
   has_been_modified H env etag last_modified = Inr False"
  by (simp add: has_been_modified_def)

theorem unsafe_method_reports_not_modified_witness:
  "REQUEST_METHOD (sample_env\<lparr>REQUEST_METHOD := ''PUT''\<rparr>) \<notin> set [''GET'', ''HEAD''] \<and>
   has_been_modified sample_host
       (sample_env\<lparr>REQUEST_METHOD := ''PUT'',
                    HTTP_IF_MODIFIED_SINCE := Some ''Tue, 13 May 2014 16:53:20 GMT''\<rparr>)
       (CHR 0x22 # ''1400000000.5-42'' @ [CHR 0x22]) (1400000000 + 1 / 2) = Inr False"
proof -
  have m: "REQUEST_METHOD (sample_env\<lparr>REQUEST_METHOD := ''PUT'',
                    HTTP_IF_MODIFIED_SINCE := Some ''Tue, 13 May 2014 16:53:20 GMT''\<rparr>)
             \<notin> set [''GET'', ''HEAD'']"
    by (simp add: sample_env_def)
  from unsafe_method_reports_not_modified [OF m, of sample_host
      "CHR 0x22 # ''1400000000.5-42'' @ [CHR 0x22]" "1400000000 + 1 / 2"]
  show ?thesis by (simp add: sample_env_def)
qed

text \<open>
  A POST without conditional headers, for the style sheet: the validator does not return
  true.
\<close>

theorem post_not_reported_modified:
  "REQUEST_METHOD (sample_env\<lparr>REQUEST_METHOD := ''POST''\<rparr>) = ''POST'' \<and>
   has_been_modified sample_host (sample_env\<lparr>REQUEST_METHOD := ''POST''\<rparr>)
       (CHR 0x22 # ''1400000000.5-42'' @ [CHR 0x22]) (1400000000 + 1 / 2) = Inr False \<and>
   has_been_modified sample_host (sample_env\<lparr>REQUEST_METHOD := ''POST''\<rparr>)
       (CHR 0x22 # ''1400000000.5-42'' @ [CHR 0x22]) (1400000000 + 1 / 2) \<noteq> Inr True"
  by (simp add: has_been_modified_def sample_env_def)

text \<open>
  Claim C3, amended. A GET or HEAD request for an existing regular file that carries a
  non-empty If-Modified-Since value which \<open>parsedate_tz\<close> rejects, or whose conversion
  by \<open>mktime_tz\<close> raises \<^verbatim>\<open>TypeError\<close> or \<^verbatim>\<open>OverflowError\<close>, ends in 400 Bad Request,
  whatever the other headers are; the file has been looked up and not opened. A request
  with the empty If-Modified-Since value is answered as the same request without the
  header. (Nothing is said of a value whose conversion raises another exception.)
\<close>

theorem unparsable_date_bad_request:
  "(REQUEST_METHOD env \<in> set [''GET'', ''HEAD''] \<and> args \<noteq> [] \<and> \<not> INVALID_PATH_PARTS args \<and>
    fs H (resolve self env args) = Some f \<and> is_regular f \<and>
    HTTP_IF_MODIFIED_SINCE env = Some v \<and> v \<noteq> [] \<and>
    (parsedate_tz H v = None \<or>
     (\<exists>d. parsedate_tz H v = Some d \<and>
          (mktime_tz H d = Inl TypeError \<or> mktime_tz H d = Inl OverflowError)))
    \<longrightarrow>
      StaticController_default H self env args =
        (Inl (HTTPBadRequest (''Received an ill-formed timestamp.'' @ [CHR 0x0D, CHR 0x0A])),
         [Getmtime (resolve self env args), Getsize (resolve self env args),
          Isfile (resolve self env args)]))
   \<and> StaticController_default H self (env\<lparr>HTTP_IF_MODIFIED_SINCE := Some []\<rparr>) args =
       StaticController_default H self (env\<lparr>HTTP_IF_MODIFIED_SINCE := None\<rparr>) args"
proof (intro conjI impI)
  assume a: "REQUEST_METHOD env \<in> set [''GET'', ''HEAD''] \<and> args \<noteq> [] \<and>
    \<not> INVALID_PATH_PARTS args \<and>
    fs H (resolve self env args) = Some f \<and> is_regular f \<and>
    HTTP_IF_MODIFIED_SINCE env = Some v \<and> v \<noteq> [] \<and>
    (parsedate_tz H v = None \<or>
     (\<exists>d. parsedate_tz H v = Some d \<and>
          (mktime_tz H d = Inl TypeError \<or> mktime_tz H d = Inl OverflowError)))"
  then have m: "REQUEST_METHOD env \<in> set [''GET'', ''HEAD'']"
    and ne: "args \<noteq> []" and ok: "\<not> INVALID_PATH_PARTS args"
    and f: "fs H (resolve self env args) = Some f" and reg: "is_regular f"
    and i: "HTTP_IF_MODIFIED_SINCE env = Some v" and v: "v \<noteq> []"
    and bad: "parsedate_tz H v = None \<or>
     (\<exists>d. parsedate_tz H v = Some d \<and>
          (mktime_tz H d = Inl TypeError \<or> mktime_tz H d = Inl OverflowError))"
    by blast+
  have h: "has_been_modified H env (generate_etag (float_str H) (st_mtime f) (st_size f))
             (st_mtime f) =
      Inl (HTTPBadRequest (''Received an ill-formed timestamp.'' @ [CHR 0x0D, CHR 0x0A]))"
    by (rule hbm_bad_date [OF m i v parse_date_rejected [OF bad]])
  show "StaticController_default H self env args =
        (Inl (HTTPBadRequest (''Received an ill-formed timestamp.'' @ [CHR 0x0D, CHR 0x0A])),
         [Getmtime (resolve self env args), Getsize (resolve self env args),
          Isfile (resolve self env args)])"
    unfolding default_served [OF ne ok f reg] Let_def h by simp
next
  show "StaticController_default H self (env\<lparr>HTTP_IF_MODIFIED_SINCE := Some []\<rparr>) args =
       StaticController_default H self (env\<lparr>HTTP_IF_MODIFIED_SINCE := None\<rparr>) args"
    by (rule default_cong) (simp_all add: empty_since_as_absent)
qed

theorem unparsable_date_bad_request_witness:
  "StaticController_default sample_host sample_controller
       (sample_env\<lparr>HTTP_IF_MODIFIED_SINCE := Some ''not-a-date''\<rparr>) [''css'', ''site''] =
     (Inl (HTTPBadRequest (''Received an ill-formed timestamp.'' @ [CHR 0x0D, CHR 0x0A])),
      [Getmtime ''/srv/app/public/css/site.css'', Getsize ''/srv/app/public/css/site.css'',
       Isfile ''/srv/app/public/css/site.css''])"
proof -
  let ?env = "sample_env\<lparr>HTTP_IF_MODIFIED_SINCE := Some ''not-a-date''\<rparr>"
  have p: "PATH_INFO ?env = ''/static/css/site.css''" by (simp add: sample_env_def)
  have m: "REQUEST_METHOD ?env \<in> set [''GET'', ''HEAD'']" by (simp add: sample_env_def)
  have ne: "[''css'', ''site''] \<noteq> []" by simp
  have i: "HTTP_IF_MODIFIED_SINCE ?env = Some ''not-a-date''" by (simp add: sample_env_def)
  have v: "''not-a-date'' \<noteq> []" by simp
  have bad: "parsedate_tz sample_host ''not-a-date'' = None \<or>
     (\<exists>d. parsedate_tz sample_host ''not-a-date'' = Some d \<and>
          (mktime_tz sample_host d = Inl TypeError \<or> mktime_tz sample_host d = Inl OverflowError))"
    using sample_unparsable(1) by simp
  note t = unparsable_date_bad_request [THEN conjunct1, rule_format, OF conjI, OF m conjI,
      OF ne conjI, OF sample_segments_valid(1) conjI, OF style_sheet_request[OF p] conjI,
      OF sample_regular(1) conjI, OF i conjI, OF v bad]
  show ?thesis
    unfolding t resolve_style_sheet[OF p] by simp
qed

text \<open>
  The empty If-Modified-Since value cannot be read as a date either, and the request is
  served as if the header were absent.
\<close>

theorem empty_date_ignored:
  "HTTP_IF_MODIFIED_SINCE (sample_env\<lparr>HTTP_IF_MODIFIED_SINCE := Some []\<rparr>) = Some [] \<and>
   parsedate_tz sample_host [] = None \<and>
   StaticController_default sample_host sample_controller
       (sample_env\<lparr>HTTP_IF_MODIFIED_SINCE := Some []\<rparr>) [''css'', ''site''] =
     (Inr (FileIter
             [(''Etag'', CHR 0x22 # ''1400000000.5-42'' @ [CHR 0x22]),
              (''Cache-Control'', ''max-age=3600, public''),
              (''Expires'', ''Tue, 13 May 2014 17:55:00 GMT''),
              (''Content-Type'', ''text/css''),
              (''Content-Length'', ''42''),
              (''Last-Modified'', ''Tue, 13 May 2014 16:53:20 GMT''),
              (''Etag'', CHR 0x22 # ''1400000000.5-42'' @ [CHR 0x22]),
              (''Cache-Control'', ''max-age=3600, public'')]
             False ''body { margin: 0 }'' 262144),
      [Getmtime ''/srv/app/public/css/site.css'', Getsize ''/srv/app/public/css/site.css'',
       Isfile ''/srv/app/public/css/site.css'', Open ''/srv/app/public/css/site.css''])"
proof -
  let ?env = "sample_env\<lparr>HTTP_IF_MODIFIED_SINCE := Some []\<rparr>"
  have p: "PATH_INFO ?env = ''/static/css/site.css''" by (simp add: sample_env_def)
  have ne: "[''css'', ''site''] \<noteq> []" by simp
  have w: "wsgi_file_wrapper ?env = False" by (simp add: sample_env_def)
  have h: "has_been_modified sample_host ?env
             (generate_etag (float_str sample_host) (st_mtime style_sheet) (st_size style_sheet))
             (st_mtime style_sheet) = Inr True"
    by (simp add: has_been_modified_def sample_env_def)
  note t = default_success [OF ne sample_segments_valid(1) style_sheet_request[OF p]
      sample_regular(1) h sample_opened(1) sample_expires sample_dates(1)]
  show ?thesis
    unfolding t resolve_style_sheet[OF p] sample_etags sample_cache_control
      sample_guess_type_eval sample_sizes sample_block_size w
    by (simp add: sample_unparsable sample_env_def)
qed

text \<open>
  Claim C5, amended. For a GET or HEAD request for an existing regular file with a
  non-empty If-Modified-Since value that parses to the timestamp \<open>t\<close>: if the file's
  modification time is not zero and at most \<open>t\<close>, the answer is 304 Not Modified; if
  \<open>t\<close> is strictly before the modification time, the If-None-Match header is not the
  generated ETag, the file can be opened and \<^verbatim>\<open>make_date\<close> can format the expiry time and
  the modification time, the answer is the file. The claim as stated fails for a
  modification time of zero and for a matching If-None-Match:
  \<open>if_modified_since_counterexample\<close> below.
\<close>

theorem if_modified_since_outcomes:
  assumes "REQUEST_METHOD env \<in> set [''GET'', ''HEAD'']"
    and "args \<noteq> []" "\<not> INVALID_PATH_PARTS args"
    and "fs H (resolve self env args) = Some f" "is_regular f"
    and "HTTP_IF_MODIFIED_SINCE env = Some v" "v \<noteq> []" "parse_date H v = Inr t"
  shows "(st_mtime f \<le> t \<and> st_mtime f \<noteq> 0 \<longrightarrow>
           StaticController_default H self env args =
             (Inr (HTTPNotModified
                     [(''Etag'', generate_etag (float_str H) (st_mtime f) (st_size f)),
                      (''Cache-Control'',
                       ''max-age='' @ str_int (cache_max_age self) @ '', public'')]),
              [Getmtime (resolve self env args), Getsize (resolve self env args),
               Isfile (resolve self env args)]))
       \<and> (t < st_mtime f \<and> opened f = Inr content
         \<and> HTTP_IF_NONE_MATCH env \<noteq> Some (generate_etag (float_str H) (st_mtime f) (st_size f))
         \<and> make_date (gmtime H) (Timestamp (clock H + of_int (cache_max_age self))) = Inr expires
         \<and> make_date (gmtime H) (Timestamp (st_mtime f)) = Inr modified_date \<longrightarrow>
           (\<exists>headers.
              StaticController_default H self env args =
                (Inr (FileIter headers (wsgi_file_wrapper env) content (BLOCK_SIZE H)),
                 [Getmtime (resolve self env args), Getsize (resolve self env args),
                  Isfile (resolve self env args), Open (resolve self env args)])))"
proof -
  note h = hbm_since [OF assms(1,6,7,8),
      of "generate_etag (float_str H) (st_mtime f) (st_size f)" "st_mtime f"]
  have a: "st_mtime f \<le> t \<and> st_mtime f \<noteq> 0 \<longrightarrow>
           StaticController_default H self env args =
             (Inr (HTTPNotModified
                     [(''Etag'', generate_etag (float_str H) (st_mtime f) (st_size f)),
                      (''Cache-Control'',
                       ''max-age='' @ str_int (cache_max_age self) @ '', public'')]),
              [Getmtime (resolve self env args), Getsize (resolve self env args),
               Isfile (resolve self env args)])"
    unfolding default_served [OF assms(2-5)] Let_def h by simp
  have b: "t < st_mtime f \<and> opened f = Inr content
         \<and> HTTP_IF_NONE_MATCH env \<noteq> Some (generate_etag (float_str H) (st_mtime f) (st_size f))
         \<and> make_date (gmtime H) (Timestamp (clock H + of_int (cache_max_age self))) = Inr expires
         \<and> make_date (gmtime H) (Timestamp (st_mtime f)) = Inr modified_date \<longrightarrow>
           (\<exists>headers.
              StaticController_default H self env args =
                (Inr (FileIter headers (wsgi_file_wrapper env) content (BLOCK_SIZE H)),
                 [Getmtime (resolve self env args), Getsize (resolve self env args),
                  Isfile (resolve self env args), Open (resolve self env args)]))"
    unfolding default_served [OF assms(2-5)] Let_def h by simp
  from a b show ?thesis by (rule conjI)
qed

theorem if_modified_since_outcomes_witness:
  "parse_date sample_host ''Tue, 13 May 2014 16:53:21 GMT'' = Inr 1400000001 \<and>
   st_mtime style_sheet \<le> 1400000001 \<and>
   StaticController_default sample_host sample_controller
       (sample_env\<lparr>HTTP_IF_MODIFIED_SINCE := Some ''Tue, 13 May 2014 16:53:21 GMT''\<rparr>)
       [''css'', ''site''] =
     (Inr (HTTPNotModified
             [(''Etag'', CHR 0x22 # ''1400000000.5-42'' @ [CHR 0x22]),
              (''Cache-Control'', ''max-age=3600, public'')]),
      [Getmtime ''/srv/app/public/css/site.css'', Getsize ''/srv/app/public/css/site.css'',
       Isfile ''/srv/app/public/css/site.css'']) \<and>
   parse_date sample_host ''Tue, 13 May 2014 16:53:20 GMT'' = Inr 1400000000 \<and>
   1400000000 < st_mtime style_sheet \<and>
   (\<exists>headers.
      StaticController_default sample_host sample_controller
          (sample_env\<lparr>HTTP_IF_MODIFIED_SINCE := Some ''Tue, 13 May 2014 16:53:20 GMT''\<rparr>)
          [''css'', ''site''] =
        (Inr (FileIter headers False ''body { margin: 0 }'' 262144),
         [Getmtime ''/srv/app/public/css/site.css'', Getsize ''/srv/app/public/css/site.css'',
          Isfile ''/srv/app/public/css/site.css'', Open ''/srv/app/public/css/site.css'']))"
proof -
  let ?late = "sample_env\<lparr>HTTP_IF_MODIFIED_SINCE := Some ''Tue, 13 May 2014 16:53:21 GMT''\<rparr>"
  let ?early = "sample_env\<lparr>HTTP_IF_MODIFIED_SINCE := Some ''Tue, 13 May 2014 16:53:20 GMT''\<rparr>"
  have ne: "[''css'', ''site''] \<noteq> []" by simp
  have le: "st_mtime style_sheet \<le> 1400000001" and nz: "st_mtime style_sheet \<noteq> 0"
    and lt: "1400000000 < st_mtime style_sheet"
    by (simp_all add: style_sheet_def)
  have p1: "PATH_INFO ?late = ''/static/css/site.css''" by (simp add: sample_env_def)
  have m1: "REQUEST_METHOD ?late \<in> set [''GET'', ''HEAD'']" by (simp add: sample_env_def)
  have i1: "HTTP_IF_MODIFIED_SINCE ?late = Some ''Tue, 13 May 2014 16:53:21 GMT''"
    by (simp add: sample_env_def)
  have v1: "''Tue, 13 May 2014 16:53:21 GMT'' \<noteq> []" by simp
  note t1 = if_modified_since_outcomes [OF m1 ne sample_segments_valid(1)
      style_sheet_request[OF p1] sample_regular(1) i1 v1 sample_parse_dates(2),
      THEN conjunct1, rule_format, OF conjI, OF le nz]
  have p2: "PATH_INFO ?early = ''/static/css/site.css''" by (simp add: sample_env_def)
  have m2: "REQUEST_METHOD ?early \<in> set [''GET'', ''HEAD'']" by (simp add: sample_env_def)
  have i2: "HTTP_IF_MODIFIED_SINCE ?early = Some ''Tue, 13 May 2014 16:53:20 GMT''"
    by (simp add: sample_env_def)
  have v2: "''Tue, 13 May 2014 16:53:20 GMT'' \<noteq> []" by simp
  have n2: "HTTP_IF_NONE_MATCH ?early \<noteq>
      Some (generate_etag (float_str sample_host) (st_mtime style_sheet) (st_size style_sheet))"
    by (simp add: sample_env_def)
  have w2: "wsgi_file_wrapper ?early = False" by (simp add: sample_env_def)
  have c2: "1400000000 < st_mtime style_sheet \<and> opened style_sheet = Inr ''body { margin: 0 }'' \<and>
     HTTP_IF_NONE_MATCH ?early \<noteq>
      Some (generate_etag (float_str sample_host) (st_mtime style_sheet) (st_size style_sheet)) \<and>
     make_date (gmtime sample_host)
       (Timestamp (clock sample_host + of_int (cache_max_age sample_controller))) =
         Inr ''Tue, 13 May 2014 17:55:00 GMT'' \<and>
     make_date (gmtime sample_host) (Timestamp (st_mtime style_sheet)) =
         Inr ''Tue, 13 May 2014 16:53:20 GMT''"
    using lt sample_opened(1) n2 sample_expires sample_dates(1) by simp
  note t2 = if_modified_since_outcomes [OF m2 ne sample_segments_valid(1)
      style_sheet_request[OF p2] sample_regular(1) i2 v2 sample_parse_dates(1),
      THEN conjunct2, rule_format, OF c2]
  show ?thesis
    using t1 [unfolded resolve_style_sheet[OF p1] sample_etags sample_cache_control]
      t2 [unfolded resolve_style_sheet[OF p2] w2 sample_block_size]
      sample_parse_dates(1,2) le lt
    by simp
qed

text \<open>
  Two requests on which the claim as stated fails. The first asks for a file whose
  modification time is zero with an If-Modified-Since ten seconds later, and gets the
  file. The second sends an If-Modified-Since before the modification time together with
  the matching If-None-Match, and gets 304 Not Modified.
\<close>

theorem if_modified_since_counterexample:
  "parse_date sample_host ''Thu, 01 Jan 1970 00:00:10 GMT'' = Inr 10 \<and>
   st_mtime epoch_file \<le> 10 \<and>
   StaticController_default sample_host sample_controller
       (sample_env\<lparr>PATH_INFO := ''/static/old.txt'',
                    HTTP_IF_MODIFIED_SINCE := Some ''Thu, 01 Jan 1970 00:00:10 GMT''\<rparr>)
       [''old''] =
     (Inr (FileIter
             [(''Etag'', CHR 0x22 # ''0.0-7'' @ [CHR 0x22]),
              (''Cache-Control'', ''max-age=3600, public''),
              (''Expires'', ''Tue, 13 May 2014 17:55:00 GMT''),
              (''Content-Type'', ''text/plain''),
              (''Content-Length'', ''7''),
              (''Last-Modified'', ''Thu, 01 Jan 1970 00:00:00 GMT''),
              (''Etag'', CHR 0x22 # ''0.0-7'' @ [CHR 0x22]),
              (''Cache-Control'', ''max-age=3600, public'')]
             False ''epoch'' 262144),
      [Getmtime ''/srv/app/public/old.txt'', Getsize ''/srv/app/public/old.txt'',
       Isfile ''/srv/app/public/old.txt'', Open ''/srv/app/public/old.txt'']) \<and>
   parse_date sample_host ''Tue, 13 May 2014 16:53:20 GMT'' = Inr 1400000000 \<and>
   1400000000 < st_mtime style_sheet \<and>
   StaticController_default sample_host sample_controller
       (sample_env\<lparr>HTTP_IF_MODIFIED_SINCE := Some ''Tue, 13 May 2014 16:53:20 GMT'',
                    HTTP_IF_NONE_MATCH := Some (CHR 0x22 # ''1400000000.5-42'' @ [CHR 0x22])\<rparr>)
       [''css'', ''site''] =
     (Inr (HTTPNotModified
             [(''Etag'', CHR 0x22 # ''1400000000.5-42'' @ [CHR 0x22]),
              (''Cache-Control'', ''max-age=3600, public'')]),
      [Getmtime ''/srv/app/public/css/site.css'', Getsize ''/srv/app/public/css/site.css'',
       Isfile ''/srv/app/public/css/site.css''])"
proof -
  let ?old = "sample_env\<lparr>PATH_INFO := ''/static/old.txt'',
                    HTTP_IF_MODIFIED_SINCE := Some ''Thu, 01 Jan 1970 00:00:10 GMT''\<rparr>"
  let ?both = "sample_env\<lparr>HTTP_IF_MODIFIED_SINCE := Some ''Tue, 13 May 2014 16:53:20 GMT'',
                    HTTP_IF_NONE_MATCH := Some (CHR 0x22 # ''1400000000.5-42'' @ [CHR 0x22])\<rparr>"
  have p1: "PATH_INFO ?old = ''/static/old.txt''" by (simp add: sample_env_def)
  have m1: "REQUEST_METHOD ?old \<in> set [''GET'', ''HEAD'']" by (simp add: sample_env_def)
  have i1: "HTTP_IF_MODIFIED_SINCE ?old = Some ''Thu, 01 Jan 1970 00:00:10 GMT''"
    by (simp add: sample_env_def)
  have v1: "''Thu, 01 Jan 1970 00:00:10 GMT'' \<noteq> []" by simp
  have n1: "HTTP_IF_NONE_MATCH ?old = None" by (simp add: sample_env_def)
  have w1: "wsgi_file_wrapper ?old = False" by (simp add: sample_env_def)
  have z: "st_mtime epoch_file = 0" by (simp add: epoch_file_def)
  have h1: "has_been_modified sample_host ?old
             (generate_etag (float_str sample_host) (st_mtime epoch_file) (st_size epoch_file))
             (st_mtime epoch_file) = Inr True"
    unfolding hbm_since [OF m1 i1 v1 sample_parse_dates(3)] n1 by (simp add: z)
  have ne1: "[''old''] \<noteq> []" by simp
  note t1 = default_success [OF ne1 sample_segments_valid(2) epoch_file_request[OF p1]
      sample_regular(2) h1 sample_opened(2) sample_expires sample_dates(2)]
  have s1: "StaticController_default sample_host sample_controller ?old [''old''] =
     (Inr (FileIter
             [(''Etag'', CHR 0x22 # ''0.0-7'' @ [CHR 0x22]),
              (''Cache-Control'', ''max-age=3600, public''),
              (''Expires'', ''Tue, 13 May 2014 17:55:00 GMT''),
              (''Content-Type'', ''text/plain''),
              (''Content-Length'', ''7''),
              (''Last-Modified'', ''Thu, 01 Jan 1970 00:00:00 GMT''),
              (''Etag'', CHR 0x22 # ''0.0-7'' @ [CHR 0x22]),
              (''Cache-Control'', ''max-age=3600, public'')]
             False ''epoch'' 262144),
      [Getmtime ''/srv/app/public/old.txt'', Getsize ''/srv/app/public/old.txt'',
       Isfile ''/srv/app/public/old.txt'', Open ''/srv/app/public/old.txt''])"
    unfolding t1 resolve_epoch_file[OF p1] sample_etags sample_cache_control
      sample_guess_type_eval sample_sizes sample_block_size w1
    by simp
  have p2: "PATH_INFO ?both = ''/static/css/site.css''" by (simp add: sample_env_def)
  have m2: "REQUEST_METHOD ?both \<in> set [''GET'', ''HEAD'']" by (simp add: sample_env_def)
  have ne: "[''css'', ''site''] \<noteq> []" by simp
  have n2: "HTTP_IF_NONE_MATCH ?both =
      Some (generate_etag (float_str sample_host) (st_mtime style_sheet) (st_size style_sheet))"
    unfolding sample_etags by (simp add: sample_env_def)
  have i2: "HTTP_IF_MODIFIED_SINCE ?both = None \<or>
      (\<exists>v t. HTTP_IF_MODIFIED_SINCE ?both = Some v \<and> parse_date sample_host v = Inr t)"
    using sample_parse_dates(1) by (simp add: sample_env_def)
  note t2 = default_not_modified [OF ne sample_segments_valid(1) style_sheet_request[OF p2]
      sample_regular(1) hbm_match [OF m2 n2 etag_nonempty i2]]
  have s2: "StaticController_default sample_host sample_controller ?both [''css'', ''site''] =
     (Inr (HTTPNotModified
             [(''Etag'', CHR 0x22 # ''1400000000.5-42'' @ [CHR 0x22]),
              (''Cache-Control'', ''max-age=3600, public'')]),
      [Getmtime ''/srv/app/public/css/site.css'', Getsize ''/srv/app/public/css/site.css'',
       Isfile ''/srv/app/public/css/site.css''])"
    unfolding t2 resolve_style_sheet[OF p2] sample_etags sample_cache_control by simp
  have "st_mtime epoch_file \<le> 10" "1400000000 < st_mtime style_sheet"
    by (simp_all add: epoch_file_def style_sheet_def)
  with s1 s2 sample_parse_dates(1,3) show ?thesis by simp
qed

text \<open>
  Claim C6. A GET or HEAD request for an existing regular file whose If-None-Match value
  equals the generated ETag, text for text, is answered 304 Not Modified when the
  If-Modified-Since header is absent or can be parsed, whatever timestamp it parses to.
\<close>

theorem etag_match_not_modified:
  assumes "REQUEST_METHOD env \<in> set [''GET'', ''HEAD'']"
    and "args \<noteq> []" "\<not> INVALID_PATH_PARTS args"
    and "fs H (resolve self env args) = Some f" "is_regular f"
    and "HTTP_IF_NONE_MATCH env = Some (generate_etag (float_str H) (st_mtime f) (st_size f))"
    and "HTTP_IF_MODIFIED_SINCE env = None \<or>
         (\<exists>v t. HTTP_IF_MODIFIED_SINCE env = Some v \<and> parse_date H v = Inr t)"
  shows "StaticController_default H self env args =
     (Inr (HTTPNotModified
             [(''Etag'', generate_etag (float_str H) (st_mtime f) (st_size f)),
              (''Cache-Control'', ''max-age='' @ str_int (cache_max_age self) @ '', public'')]),
      [Getmtime (resolve self env args), Getsize (resolve self env args),
       Isfile (resolve self env args)])"
proof -
  have h: "has_been_modified H env (generate_etag (float_str H) (st_mtime f) (st_size f)) (st_mtime f) =
      Inr False"
    by (rule hbm_match[OF assms(1,6) etag_nonempty assms(7)])
  show ?thesis
    unfolding default_served[OF assms(2-5)] Let_def h by simp
qed

theorem etag_match_not_modified_witness:
  "parse_date sample_host ''Tue, 13 May 2014 16:53:20 GMT'' = Inr 1400000000 \<and>
   1400000000 < st_mtime style_sheet \<and>
   StaticController_default sample_host sample_controller
       (sample_env\<lparr>HTTP_IF_MODIFIED_SINCE := Some ''Tue, 13 May 2014 16:53:20 GMT'',
                    HTTP_IF_NONE_MATCH := Some (CHR 0x22 # ''1400000000.5-42'' @ [CHR 0x22])\<rparr>)
       [''css'', ''site''] =
     (Inr (HTTPNotModified
             [(''Etag'', CHR 0x22 # ''1400000000.5-42'' @ [CHR 0x22]),
              (''Cache-Control'', ''max-age=3600, public'')]),
      [Getmtime ''/srv/app/public/css/site.css'', Getsize ''/srv/app/public/css/site.css'',
       Isfile ''/srv/app/public/css/site.css''])"
proof -
  let ?env = "sample_env\<lparr>HTTP_IF_MODIFIED_SINCE := Some ''Tue, 13 May 2014 16:53:20 GMT'',
                    HTTP_IF_NONE_MATCH := Some (CHR 0x22 # ''1400000000.5-42'' @ [CHR 0x22])\<rparr>"
  have p: "PATH_INFO ?env = ''/static/css/site.css''" by (simp add: sample_env_def)
  have m: "REQUEST_METHOD ?env \<in> set [''GET'', ''HEAD'']" by (simp add: sample_env_def)
  have ne: "[''css'', ''site''] \<noteq> []" by simp
  have n: "HTTP_IF_NONE_MATCH ?env =
      Some (generate_etag (float_str sample_host) (st_mtime style_sheet) (st_size style_sheet))"
    unfolding sample_etags by (simp add: sample_env_def)
  have i: "HTTP_IF_MODIFIED_SINCE ?env = None \<or>
      (\<exists>v t. HTTP_IF_MODIFIED_SINCE ?env = Some v \<and> parse_date sample_host v = Inr t)"
    using sample_parse_dates(1) by (simp add: sample_env_def)
  note t = etag_match_not_modified [OF m ne sample_segments_valid(1) style_sheet_request[OF p]
      sample_regular(1) n i]
  have lt: "1400000000 < st_mtime style_sheet" by (simp add: style_sheet_def)
  show ?thesis
    unfolding t resolve_style_sheet[OF p] sample_etags sample_cache_control
    using sample_parse_dates(1) lt by simp
qed

text \<open>
  Claim C10, amended. When the modification time of the file is exactly zero, a GET or
  HEAD request with a well-formed If-Modified-Since header is reported modified unless the
  If-None-Match header is the generated ETag, whatever timestamp the header parses to;
  so such a request is answered 304 Not Modified exactly when If-None-Match matches.
  The claim as stated has no condition on the method, and a request with another method
  is answered 304 Not Modified without any match: \<open>epoch_post_not_modified\<close> below.
\<close>

theorem epoch_mtime_ignores_since:
  assumes "REQUEST_METHOD env \<in> set [''GET'', ''HEAD'']"
    and "args \<noteq> []" "\<not> INVALID_PATH_PARTS args"
    and "fs H (resolve self env args) = Some f" "is_regular f"
    and "st_mtime f = 0"
    and "HTTP_IF_MODIFIED_SINCE env = Some v" "v \<noteq> []" "parse_date H v = Inr t"
  shows "has_been_modified H env (generate_etag (float_str H) (st_mtime f) (st_size f)) (st_mtime f) =
           Inr (HTTP_IF_NONE_MATCH env \<noteq> Some (generate_etag (float_str H) (st_mtime f) (st_size f)))
         \<and> ((\<exists>headers calls. StaticController_default H self env args =
                 (Inr (HTTPNotModified headers), calls))
              \<longleftrightarrow> HTTP_IF_NONE_MATCH env = Some (generate_etag (float_str H) (st_mtime f) (st_size f)))"
proof -
  have h: "has_been_modified H env (generate_etag (float_str H) (st_mtime f) (st_size f)) (st_mtime f) =
           Inr (HTTP_IF_NONE_MATCH env \<noteq> Some (generate_etag (float_str H) (st_mtime f) (st_size f)))"
    unfolding hbm_since[OF assms(1,7,8,9)] by (simp add: assms(6) etag_nonempty)
  have "(\<exists>headers calls. StaticController_default H self env args =
                 (Inr (HTTPNotModified headers), calls))
              \<longleftrightarrow> HTTP_IF_NONE_MATCH env = Some (generate_etag (float_str H) (st_mtime f) (st_size f))"
    unfolding default_served[OF assms(2-5)] Let_def h by (simp split: sum.splits)
  with h show ?thesis by (rule conjI)
qed

theorem epoch_mtime_ignores_since_witness:
  "parse_date sample_host ''Thu, 01 Jan 1970 00:00:10 GMT'' = Inr 10 \<and>
   has_been_modified sample_host
       (sample_env\<lparr>PATH_INFO := ''/static/old.txt'',
                    HTTP_IF_MODIFIED_SINCE := Some ''Thu, 01 Jan 1970 00:00:10 GMT''\<rparr>)
       (CHR 0x22 # ''0.0-7'' @ [CHR 0x22]) 0 = Inr True \<and>
   \<not> (\<exists>headers calls.
         StaticController_default sample_host sample_controller
           (sample_env\<lparr>PATH_INFO := ''/static/old.txt'',
                        HTTP_IF_MODIFIED_SINCE := Some ''Thu, 01 Jan 1970 00:00:10 GMT''\<rparr>)
           [''old''] = (Inr (HTTPNotModified headers), calls))"
proof -
  let ?env = "sample_env\<lparr>PATH_INFO := ''/static/old.txt'',
                    HTTP_IF_MODIFIED_SINCE := Some ''Thu, 01 Jan 1970 00:00:10 GMT''\<rparr>"
  have p: "PATH_INFO ?env = ''/static/old.txt''" by (simp add: sample_env_def)
  have m: "REQUEST_METHOD ?env \<in> set [''GET'', ''HEAD'']" by (simp add: sample_env_def)
  have ne: "[''old''] \<noteq> []" by simp
  have z: "st_mtime epoch_file = 0" by (simp add: epoch_file_def)
  have i: "HTTP_IF_MODIFIED_SINCE ?env = Some ''Thu, 01 Jan 1970 00:00:10 GMT''"
    by (simp add: sample_env_def)
  have v: "''Thu, 01 Jan 1970 00:00:10 GMT'' \<noteq> []" by simp
  have n: "HTTP_IF_NONE_MATCH ?env = None" by (simp add: sample_env_def)
  note t = epoch_mtime_ignores_since [OF m ne sample_segments_valid(2) epoch_file_request[OF p]
      sample_regular(2) z i v sample_parse_dates(3)]
  note t' = t [unfolded sample_etags n]
  show ?thesis
    using t' sample_parse_dates(3) by (simp add: z)
qed

text \<open>
  A POST for the file whose modification time is zero, with a well-formed
  If-Modified-Since and no If-None-Match, is answered 304 Not Modified.
\<close>

theorem epoch_post_not_modified:
  "REQUEST_METHOD (sample_env\<lparr>REQUEST_METHOD := ''POST'', PATH_INFO := ''/static/old.txt'',
        HTTP_IF_MODIFIED_SINCE := Some ''Thu, 01 Jan 1970 00:00:10 GMT''\<rparr>) = ''POST'' \<and>
   HTTP_IF_NONE_MATCH (sample_env\<lparr>REQUEST_METHOD := ''POST'', PATH_INFO := ''/static/old.txt'',
        HTTP_IF_MODIFIED_SINCE := Some ''Thu, 01 Jan 1970 00:00:10 GMT''\<rparr>) = None \<and>
   st_mtime epoch_file = 0 \<and>
   parse_date sample_host ''Thu, 01 Jan 1970 00:00:10 GMT'' = Inr 10 \<and>
   StaticController_default sample_host sample_controller
       (sample_env\<lparr>REQUEST_METHOD := ''POST'', PATH_INFO := ''/static/old.txt'',
                    HTTP_IF_MODIFIED_SINCE := Some ''Thu, 01 Jan 1970 00:00:10 GMT''\<rparr>)
       [''old''] =
     (Inr (HTTPNotModified
             [(''Etag'', CHR 0x22 # ''0.0-7'' @ [CHR 0x22]),
              (''Cache-Control'', ''max-age=3600, public'')]),
      [Getmtime ''/srv/app/public/old.txt'', Getsize ''/srv/app/public/old.txt'',
       Isfile ''/srv/app/public/old.txt''])"
proof -
  let ?env = "sample_env\<lparr>REQUEST_METHOD := ''POST'', PATH_INFO := ''/static/old.txt'',
                    HTTP_IF_MODIFIED_SINCE := Some ''Thu, 01 Jan 1970 00:00:10 GMT''\<rparr>"
  have p: "PATH_INFO ?env = ''/static/old.txt''" by (simp add: sample_env_def)
  have m: "REQUEST_METHOD ?env \<notin> set [''GET'', ''HEAD'']" by (simp add: sample_env_def)
  have ne: "[''old''] \<noteq> []" by simp
  note t = default_not_modified [OF ne sample_segments_valid(2) epoch_file_request[OF p]
      sample_regular(2) hbm_unsafe [OF m]]
  have s: "StaticController_default sample_host sample_controller ?env [''old''] =
     (Inr (HTTPNotModified
             [(''Etag'', CHR 0x22 # ''0.0-7'' @ [CHR 0x22]),
              (''Cache-Control'', ''max-age=3600, public'')]),
      [Getmtime ''/srv/app/public/old.txt'', Getsize ''/srv/app/public/old.txt'',
       Isfile ''/srv/app/public/old.txt''])"
    unfolding t resolve_epoch_file[OF p] sample_etags sample_cache_control by simp
  have "st_mtime epoch_file = 0" by (simp add: epoch_file_def)
  with s sample_parse_dates(3) show ?thesis by (simp add: sample_env_def)
qed

section \<open>The response\<close>

text \<open>
  Claim C8. The headers of a success are, in this order, Etag, Cache-Control, Expires,
  Content-Type, Content-Length, Last-Modified, Etag, Cache-Control; the headers of a 304
  Not Modified are Etag, Cache-Control.
\<close>

theorem header_order:
  "(StaticController_default H self env args = (Inr (FileIter headers w content b), calls) \<longrightarrow>
      map fst headers = [''Etag'', ''Cache-Control'', ''Expires'', ''Content-Type'',
                         ''Content-Length'', ''Last-Modified'', ''Etag'', ''Cache-Control''])
   \<and> (StaticController_default H self env args = (Inr (HTTPNotModified headers), calls) \<longrightarrow>
      map fst headers = [''Etag'', ''Cache-Control''])"
  by (auto simp: StaticController_default_def Let_def split: if_splits option.splits sum.splits)

theorem header_order_witness:
  "StaticController_default sample_host sample_controller sample_env [''css'', ''site''] =
     (Inr (FileIter
             [(''Etag'', CHR 0x22 # ''1400000000.5-42'' @ [CHR 0x22]),
              (''Cache-Control'', ''max-age=3600, public''),
              (''Expires'', ''Tue, 13 May 2014 17:55:00 GMT''),
              (''Content-Type'', ''text/css''),
              (''Content-Length'', ''42''),
              (''Last-Modified'', ''Tue, 13 May 2014 16:53:20 GMT''),
              (''Etag'', CHR 0x22 # ''1400000000.5-42'' @ [CHR 0x22]),
              (''Cache-Control'', ''max-age=3600, public'')]
             False ''body { margin: 0 }'' 262144),
      [Getmtime ''/srv/app/public/css/site.css'', Getsize ''/srv/app/public/css/site.css'',
       Isfile ''/srv/app/public/css/site.css'', Open ''/srv/app/public/css/site.css''])
   \<and> map fst
         [(''Etag'', CHR 0x22 # ''1400000000.5-42'' @ [CHR 0x22]),
          (''Cache-Control'', ''max-age=3600, public''),
          (''Expires'', ''Tue, 13 May 2014 17:55:00 GMT''),
          (''Content-Type'', ''text/css''),
          (''Content-Length'', ''42''),
          (''Last-Modified'', ''Tue, 13 May 2014 16:53:20 GMT''),
          (''Etag'', CHR 0x22 # ''1400000000.5-42'' @ [CHR 0x22]),
          (''Cache-Control'', ''max-age=3600, public'')] =
       [''Etag'', ''Cache-Control'', ''Expires'', ''Content-Type'', ''Content-Length'',
        ''Last-Modified'', ''Etag'', ''Cache-Control'']"
proof -
  have p: "PATH_INFO sample_env = ''/static/css/site.css''" by (simp add: sample_env_def)
  have ne: "[''css'', ''site''] \<noteq> []" by simp
  have w: "wsgi_file_wrapper sample_env = False" by (simp add: sample_env_def)
  have h: "has_been_modified sample_host sample_env
             (generate_etag (float_str sample_host) (st_mtime style_sheet) (st_size style_sheet))
             (st_mtime style_sheet) = Inr True"
    by (simp add: has_been_modified_def sample_env_def)
  note t = default_success [OF ne sample_segments_valid(1) style_sheet_request[OF p]
      sample_regular(1) h sample_opened(1) sample_expires sample_dates(1)]
  have served: "StaticController_default sample_host sample_controller sample_env [''css'', ''site''] =
     (Inr (FileIter
             [(''Etag'', CHR 0x22 # ''1400000000.5-42'' @ [CHR 0x22]),
              (''Cache-Control'', ''max-age=3600, public''),
              (''Expires'', ''Tue, 13 May 2014 17:55:00 GMT''),
              (''Content-Type'', ''text/css''),
              (''Content-Length'', ''42''),
              (''Last-Modified'', ''Tue, 13 May 2014 16:53:20 GMT''),
              (''Etag'', CHR 0x22 # ''1400000000.5-42'' @ [CHR 0x22]),
              (''Cache-Control'', ''max-age=3600, public'')]
             False ''body { margin: 0 }'' 262144),
      [Getmtime ''/srv/app/public/css/site.css'', Getsize ''/srv/app/public/css/site.css'',
       Isfile ''/srv/app/public/css/site.css'', Open ''/srv/app/public/css/site.css''])"
    unfolding t resolve_style_sheet[OF p] sample_etags sample_cache_control
      sample_guess_type_eval sample_sizes sample_block_size w
    by simp
  from header_order [THEN conjunct1, rule_format, OF served] served show ?thesis
    by (rule_tac conjI)
qed

text \<open>
  Claim C9. A request whose method is neither GET nor HEAD and that resolves to an
  existing regular file is answered 304 Not Modified with the two headers Etag and
  Cache-Control only; the file system was asked for the modification time, the size and
  the file type, and the file was never opened. The reason is that
  \<open>has_been_modified\<close> returns \<open>False\<close> for such a method.
\<close>

theorem unsafe_method_not_modified:
  assumes "REQUEST_METHOD env \<notin> set [''GET'', ''HEAD'']"
    and "args \<noteq> []" "\<not> INVALID_PATH_PARTS args"
    and "fs H (resolve self env args) = Some f" "is_regular f"
  shows "StaticController_default H self env args =
     (Inr (HTTPNotModified
             [(''Etag'', generate_etag (float_str H) (st_mtime f) (st_size f)),
              (''Cache-Control'', ''max-age='' @ str_int (cache_max_age self) @ '', public'')]),
      [Getmtime (resolve self env args), Getsize (resolve self env args),
       Isfile (resolve self env args)])"
proof -
  have h: "has_been_modified H env (generate_etag (float_str H) (st_mtime f) (st_size f)) (st_mtime f) = Inr False"
    by (rule hbm_unsafe[OF assms(1)])
  show ?thesis
    unfolding default_served[OF assms(2-5)] Let_def h by simp
qed

theorem unsafe_method_not_modified_witness:
  "REQUEST_METHOD (sample_env\<lparr>REQUEST_METHOD := ''POST''\<rparr>) \<notin> set [''GET'', ''HEAD''] \<and>
   StaticController_default sample_host sample_controller
       (sample_env\<lparr>REQUEST_METHOD := ''POST''\<rparr>) [''css'', ''site''] =
     (Inr (HTTPNotModified
             [(''Etag'', CHR 0x22 # ''1400000000.5-42'' @ [CHR 0x22]),
              (''Cache-Control'', ''max-age=3600, public'')]),
      [Getmtime ''/srv/app/public/css/site.css'', Getsize ''/srv/app/public/css/site.css'',
       Isfile ''/srv/app/public/css/site.css''])"
proof -
  let ?env = "sample_env\<lparr>REQUEST_METHOD := ''POST''\<rparr>"
  have p: "PATH_INFO ?env = ''/static/css/site.css''" by (simp add: sample_env_def)
  have m: "REQUEST_METHOD ?env \<notin> set [''GET'', ''HEAD'']" by (simp add: sample_env_def)
  have ne: "[''css'', ''site''] \<noteq> []" by simp
  note t = unsafe_method_not_modified [OF m ne sample_segments_valid(1)
      style_sheet_request[OF p] sample_regular(1)]
  show ?thesis
    unfolding t resolve_style_sheet[OF p] sample_etags sample_cache_control using m by simp
qed

section \<open>Exceptions the controller does not catch\<close>

text \<open>
  \<^verbatim>\<open>parse_date\<close> catches \<^verbatim>\<open>TypeError\<close> and \<^verbatim>\<open>OverflowError\<close> only. A GET or HEAD request
  for an existing regular file whose If-Modified-Since value \<open>parsedate_tz\<close> accepts
  and \<open>mktime_tz\<close> rejects with another exception ends in that exception, not in 400
  Bad Request: so it is for the year 10000, for which \<^verbatim>\<open>mktime_tz\<close> raises
  \<^verbatim>\<open>ValueError\<close>.
\<close>

theorem conversion_error_uncaught:
  assumes "REQUEST_METHOD env \<in> set [''GET'', ''HEAD'']"
    and "args \<noteq> []" "\<not> INVALID_PATH_PARTS args"
    and "fs H (resolve self env args) = Some f" "is_regular f"
    and "HTTP_IF_MODIFIED_SINCE env = Some v" "v \<noteq> []"
    and "parsedate_tz H v = Some d" "mktime_tz H d = Inl e"
    and "e \<notin> set [TypeError, OverflowError]"
  shows "StaticController_default H self env args =
     (Inl (Uncaught e),
      [Getmtime (resolve self env args), Getsize (resolve self env args),
       Isfile (resolve self env args)])"
proof -
  have h: "has_been_modified H env (generate_etag (float_str H) (st_mtime f) (st_size f))
             (st_mtime f) = Inl (Uncaught e)"
    by (rule hbm_bad_date [OF assms(1,6,7) parse_date_uncaught [OF assms(8,9,10)]])
  show ?thesis
    unfolding default_served [OF assms(2-5)] Let_def h by simp
qed

theorem conversion_error_uncaught_witness:
  "StaticController_default sample_host sample_controller
       (sample_env\<lparr>HTTP_IF_MODIFIED_SINCE := Some ''Tue, 13 May 10000 16:53:20 GMT''\<rparr>)
       [''css'', ''site''] =
     (Inl (Uncaught ValueError),
      [Getmtime ''/srv/app/public/css/site.css'', Getsize ''/srv/app/public/css/site.css'',
       Isfile ''/srv/app/public/css/site.css''])"
proof -
  let ?env = "sample_env\<lparr>HTTP_IF_MODIFIED_SINCE := Some ''Tue, 13 May 10000 16:53:20 GMT''\<rparr>"
  have p: "PATH_INFO ?env = ''/static/css/site.css''" by (simp add: sample_env_def)
  have m: "REQUEST_METHOD ?env \<in> set [''GET'', ''HEAD'']" by (simp add: sample_env_def)
  have ne: "[''css'', ''site''] \<noteq> []" by simp
  have i: "HTTP_IF_MODIFIED_SINCE ?env = Some ''Tue, 13 May 10000 16:53:20 GMT''"
    by (simp add: sample_env_def)
  have v: "''Tue, 13 May 10000 16:53:20 GMT'' \<noteq> []" by simp
  have d: "parsedate_tz sample_host ''Tue, 13 May 10000 16:53:20 GMT'' =
             Some [10000, 5, 13, 16, 53, 20, 0, 1, - 1, 0]"
    by (simp add: sample_host_def sample_parsedate_tz_def)
  have k: "mktime_tz sample_host [10000, 5, 13, 16, 53, 20, 0, 1, - 1, 0] = Inl ValueError"
    by (simp add: sample_host_def sample_mktime_tz_def)
  have e: "ValueError \<notin> set [TypeError, OverflowError]" by simp
  note t = conversion_error_uncaught [OF m ne sample_segments_valid(1) style_sheet_request[OF p] sample_regular(1)
      i v d k e]
  show ?thesis unfolding t resolve_style_sheet[OF p] by simp
qed

text \<open>
  \<^verbatim>\<open>make_date\<close> does not catch what \<^verbatim>\<open>time.gmtime\<close> raises. A request that is to be
  served, for a file whose modification time \<^verbatim>\<open>gmtime\<close> refuses, ends in that exception
  after the file has been opened.
\<close>

theorem gmtime_error_uncaught:
  assumes "args \<noteq> []" "\<not> INVALID_PATH_PARTS args"
    and "fs H (resolve self env args) = Some f" "is_regular f"
    and "has_been_modified H env (generate_etag (float_str H) (st_mtime f) (st_size f))
           (st_mtime f) = Inr True"
    and "opened f = Inr content"
    and "make_date (gmtime H) (Timestamp (clock H + of_int (cache_max_age self))) = Inr expires"
    and "gmtime H (st_mtime f) = Inl e"
  shows "StaticController_default H self env args =
     (Inl (Uncaught e),
      [Getmtime (resolve self env args), Getsize (resolve self env args),
       Isfile (resolve self env args), Open (resolve self env args)])"
proof -
  have m: "make_date (gmtime H) (Timestamp (st_mtime f)) = Inl e"
    by (simp add: make_date_def assms(8))
  show ?thesis
    unfolding default_served [OF assms(1-4)] Let_def assms(5,6,7) m by simp
qed

theorem gmtime_error_uncaught_witness:
  "st_mtime far_future_file = 10 ^ 18 \<and>
   gmtime sample_host (10 ^ 18) = Inl OSError \<and>
   StaticController_default sample_host sample_controller
       (sample_env\<lparr>PATH_INFO := ''/static/new.txt''\<rparr>) [''new''] =
     (Inl (Uncaught OSError),
      [Getmtime ''/srv/app/public/new.txt'', Getsize ''/srv/app/public/new.txt'',
       Isfile ''/srv/app/public/new.txt'', Open ''/srv/app/public/new.txt''])"
proof -
  let ?env = "sample_env\<lparr>PATH_INFO := ''/static/new.txt''\<rparr>"
  have p: "PATH_INFO ?env = ''/static/new.txt''" by (simp add: sample_env_def)
  have ne: "[''new''] \<noteq> []" by simp
  have ok: "\<not> INVALID_PATH_PARTS [''new'']" by (simp add: INVALID_PATH_PARTS_def)
  have f: "fs sample_host (resolve sample_controller ?env [''new'']) = Some far_future_file"
    unfolding resolve_far_future[OF p] by (simp add: sample_host_def sample_fs_def)
  have reg: "is_regular far_future_file" and o: "opened far_future_file = Inr ''new''"
    and mt: "st_mtime far_future_file = 10 ^ 18"
    by (simp_all add: far_future_file_def)
  have h: "has_been_modified sample_host ?env
             (generate_etag (float_str sample_host) (st_mtime far_future_file)
                (st_size far_future_file))
             (st_mtime far_future_file) = Inr True"
    by (simp add: has_been_modified_def sample_env_def)
  have g: "gmtime sample_host (10 ^ 18) = Inl OSError"
    by (simp add: sample_host_def sample_gmtime_def)
  have g': "gmtime sample_host (st_mtime far_future_file) = Inl OSError"
    unfolding mt by (rule g)
  note t = gmtime_error_uncaught [OF ne ok f reg h o sample_expires g']
  show ?thesis unfolding t resolve_far_future[OF p] using mt g by simp
qed

end
